theory Spec2Isabelle
  imports Main "HOL-Library.AList"
begin

section \<open>Data model\<close>

text \<open>
  The values produced by \<^verbatim>\<open>json.loads\<close>.  Python's \<^verbatim>\<open>None\<close> is \<open>JNull\<close>; it is also
  the "absent" result of the Value Navigator.  A float is carried as a pair \<open>(m, e)\<close>
  standing for \<open>m * 2 ^ e\<close>; the only property of a number the program looks at is
  whether it is zero.  An object is an association list in insertion order, read with
  \<open>map_of\<close> and written with \<open>AList.update\<close> (a new key goes to the end, an existing
  key keeps its place), which is the behaviour of a Python \<^verbatim>\<open>dict\<close>.

  A \<open>char\<close> stands for a code point below 256.
\<close>

datatype json =
    JNull
  | JBool bool
  | JInt int
  | JFloat int int
  | JStr string
  | JArr "json list"
  | JObj "(string \<times> json) list"

type_synonym dict = "(string \<times> json) list"

text \<open>The exceptions the modelled code can meet.  \<open>FetchError\<close> stands for whatever
  the HTTP collaborator or \<^verbatim>\<open>json.loads\<close> raises.\<close>

datatype py_error =
    AttributeError
  | TypeError
  | ValueError
  | IndexError
  | KeyError
  | RuntimeError
  | FetchError

section \<open>Python primitives used by the program\<close>

text \<open>\<^verbatim>\<open>d.get(k)\<close> and \<^verbatim>\<open>d.get(k, default)\<close> on a dict.\<close>

definition dict_get :: "dict \<Rightarrow> string \<Rightarrow> json" where
  "dict_get d k = (case map_of d k of None \<Rightarrow> JNull | Some v \<Rightarrow> v)"

definition dict_get_default :: "dict \<Rightarrow> string \<Rightarrow> json \<Rightarrow> json" where
  "dict_get_default d k dflt = (case map_of d k of None \<Rightarrow> dflt | Some v \<Rightarrow> v)"

text \<open>\<^verbatim>\<open>x.get(k)\<close> on an arbitrary value: only a dict has the method.\<close>

definition py_get :: "json \<Rightarrow> string \<Rightarrow> py_error + json" where
  "py_get x k = (case x of JObj d \<Rightarrow> Inr (dict_get d k) | _ \<Rightarrow> Inl AttributeError)"

text \<open>\<^verbatim>\<open>s.split(sep)\<close> for a one-character separator: every occurrence of the
  separator cuts, so empty pieces are kept and the result is never empty.\<close>

fun split_on :: "char \<Rightarrow> string \<Rightarrow> string list" where
  "split_on c [] = [[]]"
| "split_on c (x # xs) =
     (if x = c then [] # split_on c xs
      else (x # hd (split_on c xs)) # tl (split_on c xs))"

text \<open>\<^verbatim>\<open>sep.join(parts)\<close> for a one-character separator.\<close>

fun join_with :: "char \<Rightarrow> string list \<Rightarrow> string" where
  "join_with c [] = []"
| "join_with c [w] = w"
| "join_with c (w # v # ws) = w @ c # join_with c (v # ws)"

text \<open>\<^verbatim>\<open>int(s)\<close> for a string: the whitespace around the number is stripped (the code
  points 9 to 13, 32, 133 and 160), one sign is allowed, and the decimal digits may be
  grouped by single underscores.  (The interpreter's limit on the number of digits is
  not modelled.)\<close>

definition is_space :: "char \<Rightarrow> bool" where
  "is_space c = (let n = (of_char c :: nat) in
     (9 \<le> n \<and> n \<le> 13) \<or> n = 32 \<or> n = 133 \<or> n = 160)"

definition is_digit :: "char \<Rightarrow> bool" where
  "is_digit c = (let n = (of_char c :: nat) in 48 \<le> n \<and> n \<le> 57)"

definition digit_val :: "char \<Rightarrow> nat" where
  "digit_val c = of_char c - 48"

definition strip :: "string \<Rightarrow> string" where
  "strip s = rev (dropWhile is_space (rev (dropWhile is_space s)))"

fun digits_from :: "nat \<Rightarrow> string \<Rightarrow> nat option" where
  "digits_from acc [] = Some acc"
| "digits_from acc [c] = (if is_digit c then Some (10 * acc + digit_val c) else None)"
| "digits_from acc (c # d # cs) =
     (if is_digit c then digits_from (10 * acc + digit_val c) (d # cs)
      else if c = CHR ''_'' \<and> is_digit d then digits_from (10 * acc + digit_val d) cs
      else None)"

definition digits :: "string \<Rightarrow> nat option" where
  "digits s = (case s of [] \<Rightarrow> None
     | c # cs \<Rightarrow> if is_digit c then digits_from (digit_val c) cs else None)"

definition py_int :: "string \<Rightarrow> py_error + int" where
  "py_int s =
     (case strip s of
        [] \<Rightarrow> Inl ValueError
      | c # cs \<Rightarrow>
          if c = CHR ''-'' then
            (case digits cs of None \<Rightarrow> Inl ValueError | Some n \<Rightarrow> Inr (- int n))
          else if c = CHR ''+'' then
            (case digits cs of None \<Rightarrow> Inl ValueError | Some n \<Rightarrow> Inr (int n))
          else
            (case digits (c # cs) of None \<Rightarrow> Inl ValueError | Some n \<Rightarrow> Inr (int n)))"

text \<open>\<^verbatim>\<open>xs[i]\<close> on a Python sequence of length \<open>n\<close>: an index below zero counts from
  the end, and an index outside \<open>-n \<le> i < n\<close> raises \<^verbatim>\<open>IndexError\<close>.\<close>

definition seq_index :: "'a list \<Rightarrow> int \<Rightarrow> py_error + 'a" where
  "seq_index xs i =
     (let n = int (length xs); j = (if i < 0 then i + n else i)
      in if 0 \<le> j \<and> j < n then Inr (xs ! nat j) else Inl IndexError)"

text \<open>\<^verbatim>\<open>x[i]\<close> for an integer \<open>i\<close> on an arbitrary value: a list gives its element, a
  string the one-character string, a dict has only string keys so the lookup misses,
  and \<^verbatim>\<open>None\<close>, booleans and numbers are not subscriptable.\<close>

definition py_getitem :: "json \<Rightarrow> int \<Rightarrow> py_error + json" where
  "py_getitem x i =
     (case x of
        JArr xs \<Rightarrow> seq_index xs i
      | JStr s \<Rightarrow> (case seq_index s i of Inl e \<Rightarrow> Inl e | Inr c \<Rightarrow> Inr (JStr [c]))
      | JObj d \<Rightarrow> Inl KeyError
      | _ \<Rightarrow> Inl TypeError)"

section \<open>The Value Navigator: \<^verbatim>\<open>Dell.parse_json\<close>\<close>

text \<open>A path element is read as \<^verbatim>\<open>K[i]\<close> when it ends with \<^verbatim>\<open>]\<close> and holds a
  \<^verbatim>\<open>[\<close>; then \<^verbatim>\<open>p[:-1].split("[", 1)\<close> cuts it at the first \<^verbatim>\<open>[\<close>.\<close>

definition is_indexed :: "string \<Rightarrow> bool" where
  "is_indexed p = (p \<noteq> [] \<and> last p = CHR '']'' \<and> CHR ''['' \<in> set p)"

definition key_part :: "string \<Rightarrow> string" where
  "key_part p = takeWhile (\<lambda>c. c \<noteq> CHR ''['') (butlast p)"

definition idx_part :: "string \<Rightarrow> string" where
  "idx_part p = tl (dropWhile (\<lambda>c. c \<noteq> CHR ''['') (butlast p))"

text \<open>The body of the \<^verbatim>\<open>try\<close> block for one path element.  \<open>Inl e\<close>: the exception
  \<open>e\<close> leaves the block; \<open>Inr None\<close>: the block executes \<^verbatim>\<open>return None\<close>;
  \<open>Inr (Some c)\<close>: the block ends with \<^verbatim>\<open>current = c\<close>.\<close>

definition segment_body :: "json \<Rightarrow> string \<Rightarrow> py_error + json option" where
  "segment_body current p =
     (if is_indexed p then
        (case py_get current (key_part p) of
           Inl e \<Rightarrow> Inl e
         | Inr c \<Rightarrow>
            (case py_int (idx_part p) of
               Inl e \<Rightarrow> Inl e
             | Inr idx \<Rightarrow>
                (case py_getitem c idx of
                   Inl e \<Rightarrow> Inl e
                 | Inr c' \<Rightarrow> Inr (Some c'))))
      else
        (case current of
           JObj d \<Rightarrow> Inr (Some (dict_get d p))
         | JArr xs \<Rightarrow>
            (case py_int p of
               Inl e \<Rightarrow> Inr None
             | Inr idx \<Rightarrow>
                (case py_getitem current idx of
                   Inl e \<Rightarrow> Inr None
                 | Inr c' \<Rightarrow> Inr (Some c')))
         | _ \<Rightarrow> Inr None))"

text \<open>The loop over the path.  The result type keeps a place for an exception that
  would leave \<^verbatim>\<open>parse_json\<close>; the handler \<^verbatim>\<open>except Exception: return None\<close> turns every
  exception of the body into the result \<^verbatim>\<open>None\<close>.\<close>

fun parse_json :: "json \<Rightarrow> string list \<Rightarrow> py_error + json" where
  "parse_json current [] = Inr current"
| "parse_json current (p # ps) =
     (if current = JNull then Inr JNull
      else
        (case segment_body current p of
           Inl e \<Rightarrow> Inr JNull
         | Inr None \<Rightarrow> Inr JNull
         | Inr (Some c) \<Rightarrow> parse_json c ps))"

section \<open>The Key Spec Resolver: \<^verbatim>\<open>Dell.extract_data\<close>\<close>

text \<open>A key record \<^verbatim>\<open>{"name": n, "path": p}\<close> is the pair \<open>(n, p)\<close>; the three forms of
  the \<^verbatim>\<open>keys\<close> argument are the three constructors.\<close>

datatype keys =
    KeyList "(string \<times> string) list"
  | KeyDict "string \<times> string"
  | KeyStr string

text \<open>The loop of the list form, with \<^verbatim>\<open>return_buffer\<close> as accumulator.  The branch
  for \<^verbatim>\<open>@odata.id\<close> calls \<^verbatim>\<open>data.get(path)\<close>; the other calls \<^verbatim>\<open>parse_json\<close> on the
  path split at the dots.\<close>

fun extract_list :: "json \<Rightarrow> (string \<times> string) list \<Rightarrow> dict \<Rightarrow> py_error + dict" where
  "extract_list data [] return_buffer = Inr return_buffer"
| "extract_list data ((name, path) # ks) return_buffer =
     (if path = ''@odata.id'' then
        (case py_get data path of
           Inl e \<Rightarrow> Inl e
         | Inr v \<Rightarrow> extract_list data ks (AList.update name v return_buffer))
      else
        (case parse_json data (split_on CHR ''.'' path) of
           Inl e \<Rightarrow> Inl e
         | Inr v \<Rightarrow> extract_list data ks (AList.update name v return_buffer)))"

text \<open>\<open>loads\<close> is \<^verbatim>\<open>json.loads\<close>, applied only to a string document when
  \<^verbatim>\<open>skip_parse\<close> is false; its failure is re-raised as \<^verbatim>\<open>RuntimeError\<close>.\<close>

definition extract_data ::
  "(string \<Rightarrow> py_error + json) \<Rightarrow> json \<Rightarrow> keys \<Rightarrow> bool \<Rightarrow> py_error + json" where
  "extract_data loads data ks skip_parse =
     (case (case data of
              JStr s \<Rightarrow>
                if \<not> skip_parse then
                  (case loads s of Inl e \<Rightarrow> Inl RuntimeError | Inr v \<Rightarrow> Inr v)
                else Inr data
            | _ \<Rightarrow> Inr data) of
        Inl e \<Rightarrow> Inl e
      | Inr doc \<Rightarrow>
         (case ks of
            KeyList l \<Rightarrow>
              (case extract_list doc l [] of Inl e \<Rightarrow> Inl e | Inr b \<Rightarrow> Inr (JObj b))
          | KeyDict (name, path) \<Rightarrow>
              (case parse_json doc (split_on CHR ''.'' path) of
                 Inl e \<Rightarrow> Inl e
               | Inr v \<Rightarrow> Inr (JObj [(name, v)]))
          | KeyStr path \<Rightarrow> parse_json doc (split_on CHR ''.'' path)))"

section \<open>The Category Normalizers\<close>

text \<open>\<^verbatim>\<open>x.split(" ")\<close> and \<^verbatim>\<open>x.lower()\<close> exist on strings only.\<close>

definition py_split :: "json \<Rightarrow> py_error + string list" where
  "py_split x = (case x of JStr s \<Rightarrow> Inr (split_on CHR '' '' s) | _ \<Rightarrow> Inl AttributeError)"

definition lower_char :: "char \<Rightarrow> char" where
  "lower_char c = (let n = (of_char c :: nat) in
     if (65 \<le> n \<and> n \<le> 90) \<or> (192 \<le> n \<and> n \<le> 222 \<and> n \<noteq> 215)
     then char_of (n + 32) else c)"

definition py_lower :: "json \<Rightarrow> py_error + string" where
  "py_lower x = (case x of JStr s \<Rightarrow> Inr (map lower_char s) | _ \<Rightarrow> Inl AttributeError)"

text \<open>The value \<^verbatim>\<open>{"reading": obj.get("reading"), "health": obj.get("health")}\<close>.\<close>

definition reading_health :: "dict \<Rightarrow> json" where
  "reading_health obj =
     JObj [(''reading'', dict_get obj ''reading''), (''health'', dict_get obj ''health'')]"

text \<open>The inner loop of \<^verbatim>\<open>format_psu\<close>: the first record of the buffer whose
  \<^verbatim>\<open>"name"\<close> equals \<^verbatim>\<open>psu_name\<close> gets the reading under the lowercased type, and the
  loop breaks.  The type is lowercased only once such a record is found.\<close>

fun merge_into :: "string \<Rightarrow> dict \<Rightarrow> dict list \<Rightarrow> py_error + dict list" where
  "merge_into psu_name obj [] = Inr []"
| "merge_into psu_name obj (b # bs) =
     (case map_of b ''name'' of
        None \<Rightarrow> Inl KeyError
      | Some v \<Rightarrow>
          if v = JStr psu_name then
            (case py_lower (dict_get_default obj ''type'' (JStr [])) of
               Inl e \<Rightarrow> Inl e
             | Inr t \<Rightarrow> Inr (AList.update t (reading_health obj) b # bs))
          else
            (case merge_into psu_name obj bs of
               Inl e \<Rightarrow> Inl e
             | Inr bs' \<Rightarrow> Inr (b # bs')))"

text \<open>The outer loop of \<^verbatim>\<open>format_psu\<close> with its two accumulators.\<close>

fun psu_loop :: "string list \<Rightarrow> dict list \<Rightarrow> dict list \<Rightarrow> py_error + dict list" where
  "psu_loop found_power_supplies buffer [] = Inr buffer"
| "psu_loop found_power_supplies buffer (obj # rest) =
     (case py_split (dict_get_default obj ''name'' (JStr [])) of
        Inl e \<Rightarrow> Inl e
      | Inr [] \<Rightarrow> Inl IndexError
      | Inr (psu_name # ws) \<Rightarrow>
          if psu_name \<notin> set found_power_supplies then
            (case py_lower (dict_get_default obj ''type'' (JStr [])) of
               Inl e \<Rightarrow> Inl e
             | Inr t \<Rightarrow>
                psu_loop (found_power_supplies @ [psu_name])
                  (buffer @ [AList.update t (reading_health obj) [(''name'', JStr psu_name)]])
                  rest)
          else
            (case merge_into psu_name obj buffer of
               Inl e \<Rightarrow> Inl e
             | Inr buffer' \<Rightarrow> psu_loop found_power_supplies buffer' rest))"

definition format_psu :: "dict list \<Rightarrow> py_error + dict list" where
  "format_psu psu_obj = psu_loop [] [] psu_obj"

text \<open>One round of the loop of \<^verbatim>\<open>format_temp\<close>, and the loop.  The records are changed
  in place; the model returns the changed list.\<close>

definition format_temp_obj :: "dict \<Rightarrow> py_error + dict" where
  "format_temp_obj obj =
     (case py_split (dict_get_default obj ''name'' (JStr [])) of
        Inl e \<Rightarrow> Inl e
      | Inr parts \<Rightarrow>
          if length parts > 1
          then Inr (AList.update ''name'' (JStr (join_with CHR '' '' (butlast parts))) obj)
          else Inr obj)"

fun format_temp :: "dict list \<Rightarrow> py_error + dict list" where
  "format_temp [] = Inr []"
| "format_temp (obj # rest) =
     (case format_temp_obj obj of
        Inl e \<Rightarrow> Inl e
      | Inr obj' \<Rightarrow>
         (case format_temp rest of Inl e \<Rightarrow> Inl e | Inr rest' \<Rightarrow> Inr (obj' # rest')))"

text \<open>The same for \<^verbatim>\<open>format_sysboard\<close>.\<close>

definition remove_words :: "string list" where
  "remove_words = [''System'', ''Board'', ''Usage'']"

definition format_sysboard_obj :: "dict \<Rightarrow> py_error + dict" where
  "format_sysboard_obj obj =
     (case py_split (dict_get_default obj ''name'' (JStr [])) of
        Inl e \<Rightarrow> Inl e
      | Inr words \<Rightarrow>
         (let buffer = filter (\<lambda>w. w \<notin> set remove_words) words
          in if buffer \<noteq> []
             then Inr (AList.update ''name'' (JStr (join_with CHR '' '' buffer)) obj)
             else Inr obj))"

fun format_sysboard :: "dict list \<Rightarrow> py_error + dict list" where
  "format_sysboard [] = Inr []"
| "format_sysboard (obj # rest) =
     (case format_sysboard_obj obj of
        Inl e \<Rightarrow> Inl e
      | Inr obj' \<Rightarrow>
         (case format_sysboard rest of Inl e \<Rightarrow> Inl e | Inr rest' \<Rightarrow> Inr (obj' # rest')))"

section \<open>The Sensor Classifier and the Pipeline Orchestrator: \<^verbatim>\<open>main\<close>\<close>

text \<open>The four lists of \<^verbatim>\<open>out\<close>.\<close>

record buckets =
  fan :: "dict list"
  psu :: "dict list"
  temperature :: "dict list"
  sysBoard :: "dict list"

text \<open>\<^verbatim>\<open>isinstance(x, str)\<close>, \<^verbatim>\<open>x.startswith(pre)\<close> (a string method) and \<^verbatim>\<open>sub in x\<close>
  (a substring test on a string, a membership test on a list, a key test on a dict, a
  \<^verbatim>\<open>TypeError\<close> on everything else).\<close>

definition is_str :: "json \<Rightarrow> bool" where
  "is_str x = (case x of JStr s \<Rightarrow> True | _ \<Rightarrow> False)"

definition starts_with :: "string \<Rightarrow> string \<Rightarrow> bool" where
  "starts_with pre s = (take (length pre) s = pre)"

fun contains :: "string \<Rightarrow> string \<Rightarrow> bool" where
  "contains sub [] = (sub = [])"
| "contains sub (x # xs) = (starts_with sub (x # xs) \<or> contains sub xs)"

definition py_startswith :: "json \<Rightarrow> string \<Rightarrow> py_error + bool" where
  "py_startswith x pre =
     (case x of JStr s \<Rightarrow> Inr (starts_with pre s) | _ \<Rightarrow> Inl AttributeError)"

definition py_in :: "string \<Rightarrow> json \<Rightarrow> py_error + bool" where
  "py_in sub x =
     (case x of
        JStr s \<Rightarrow> Inr (contains sub s)
      | JArr xs \<Rightarrow> Inr (JStr sub \<in> set xs)
      | JObj d \<Rightarrow> Inr (sub \<in> fst ` set d)
      | _ \<Rightarrow> Inl TypeError)"

text \<open>\<^verbatim>\<open>a and b\<close> evaluates \<open>b\<close> only when \<open>a\<close> is true; \<open>b\<close> may raise.\<close>

definition py_and :: "bool \<Rightarrow> py_error + bool \<Rightarrow> py_error + bool" where
  "py_and a b = (if a then b else Inr False)"

definition and_then :: "py_error + bool \<Rightarrow> bool \<Rightarrow> py_error + bool" where
  "and_then a b = (case a of Inl e \<Rightarrow> Inl e | Inr x \<Rightarrow> Inr (x \<and> b))"

text \<open>\<^verbatim>\<open>if c: t  else: e\<close> for a condition that may raise.\<close>

definition py_if :: "py_error + bool \<Rightarrow> py_error + 'a \<Rightarrow> py_error + 'a \<Rightarrow> py_error + 'a" where
  "py_if c t e = (case c of Inl x \<Rightarrow> Inl x | Inr b \<Rightarrow> if b then t else e)"

text \<open>Lines 316 to 336 of \<^verbatim>\<open>main\<close>: the chain of tests on one extracted record
  \<^verbatim>\<open>parsed\<close>, each branch appending the record to one list of \<^verbatim>\<open>out\<close>.\<close>

definition classify_append :: "buckets \<Rightarrow> dict \<Rightarrow> py_error + buckets" where
  "classify_append out parsed =
     (let reading_type = dict_get parsed ''type'';
          name = dict_get_default parsed ''name'' (JStr [])
      in
      py_if (py_and (is_str name)
              (and_then (py_startswith name ''PS'')
                 (dict_get parsed ''context'' = JStr ''PowerSupply'')))
        (Inr (out\<lparr>psu := psu out @ [parsed]\<rparr>))
      (if reading_type = JStr ''Temperature'' then
        Inr (out\<lparr>temperature := temperature out @ [parsed]\<rparr>)
      else
      py_if (py_and (is_str name)
              (and_then (py_in ''Fan'' name) (reading_type = JStr ''Rotational'')))
        (Inr (out\<lparr>fan := fan out @ [parsed]\<rparr>))
      (py_if (py_and (is_str name)
              (and_then (py_in ''System Board'' name) (reading_type = JStr ''Percent'')))
        (Inr (out\<lparr>sysBoard := sysBoard out @ [parsed]\<rparr>))
        (let ctx = dict_get_default parsed ''context'' (JStr [])
         in if ctx = JStr ''PowerSupply'' then Inr (out\<lparr>psu := psu out @ [parsed]\<rparr>)
            else if ctx = JStr ''Chassis'' then Inr (out\<lparr>sysBoard := sysBoard out @ [parsed]\<rparr>)
            else Inr out))))"

text \<open>Truth of a value in a condition, and \<^verbatim>\<open>a or b\<close>.\<close>

definition truthy :: "json \<Rightarrow> bool" where
  "truthy x =
     (case x of
        JNull \<Rightarrow> False
      | JBool b \<Rightarrow> b
      | JInt i \<Rightarrow> i \<noteq> 0
      | JFloat m e \<Rightarrow> m \<noteq> 0
      | JStr s \<Rightarrow> s \<noteq> []
      | JArr xs \<Rightarrow> xs \<noteq> []
      | JObj d \<Rightarrow> d \<noteq> [])"

definition py_or :: "json \<Rightarrow> json \<Rightarrow> json" where
  "py_or a b = (if truthy a then a else b)"

text \<open>Lines 250 to 266 of \<^verbatim>\<open>main\<close>: the choice of the member list.  \<open>loaded\<close> is the
  outcome of \<^verbatim>\<open>json.loads(sensors_raw)\<close>, which the code computes twice.\<close>

definition select_sensors :: "py_error + json \<Rightarrow> py_error + json list" where
  "select_sensors loaded =
     (let sensors_parsed = (case loaded of Inl e \<Rightarrow> JNull | Inr v \<Rightarrow> v);
          sensors =
            (case sensors_parsed of
               JObj d \<Rightarrow>
                 py_or (dict_get d ''Members'') (py_or (dict_get d ''members'') sensors_parsed)
             | _ \<Rightarrow> JNull);
          sensors2 =
            (if sensors = JNull then (case loaded of Inl e \<Rightarrow> JNull | Inr v \<Rightarrow> v)
             else sensors)
      in case sensors2 of JArr xs \<Rightarrow> Inr xs | _ \<Rightarrow> Inl RuntimeError)"

text \<open>The six key records of the sensor extraction.\<close>

definition sensor_keys :: "(string \<times> string) list" where
  "sensor_keys =
     [(''id'', ''Id''), (''name'', ''Name''), (''context'', ''PhysicalContext''),
      (''reading'', ''Reading''), (''type'', ''ReadingType''), (''health'', ''Status.Health'')]"

text \<open>Lines 282 to 306: which object stands for a member.  \<open>request\<close> is
  \<^verbatim>\<open>dell_sensors.execute_request\<close> and \<open>loads\<close> is \<^verbatim>\<open>json.loads\<close>; both may raise, and
  then the member is left out (\<open>None\<close>, the \<^verbatim>\<open>continue\<close> of the loop).\<close>

definition fetch_json ::
  "(json \<Rightarrow> py_error + string) \<Rightarrow> (string \<Rightarrow> py_error + json) \<Rightarrow> json \<Rightarrow> json option" where
  "fetch_json request loads path =
     (case request path of
        Inl e \<Rightarrow> None
      | Inr sensor_text \<Rightarrow> (case loads sensor_text of Inl e \<Rightarrow> None | Inr v \<Rightarrow> Some v))"

definition has_key :: "dict \<Rightarrow> string \<Rightarrow> bool" where
  "has_key d k = (map_of d k \<noteq> None)"

definition is_list :: "json \<Rightarrow> bool" where
  "is_list x = (case x of JArr xs \<Rightarrow> True | _ \<Rightarrow> False)"

definition resolve_member ::
  "(json \<Rightarrow> py_error + string) \<Rightarrow> (string \<Rightarrow> py_error + json) \<Rightarrow> json \<Rightarrow> json option" where
  "resolve_member request loads sensor =
     (case sensor of
        JObj d \<Rightarrow>
          if has_key d ''@odata.id'' \<or>
             (has_key d ''Members'' \<and> is_list (dict_get d ''Members''))
          then
            (if has_key d ''@odata.id''
             then fetch_json request loads (dict_get d ''@odata.id'')
             else Some sensor)
          else Some sensor
      | JStr s \<Rightarrow> fetch_json request loads sensor
      | _ \<Rightarrow> None)"

text \<open>Lines 280 to 336: the loop over the members.  A failure of the extraction leaves
  the member out; the classification stands outside every \<^verbatim>\<open>try\<close> of the loop.\<close>

fun discover ::
  "(json \<Rightarrow> py_error + string) \<Rightarrow> (string \<Rightarrow> py_error + json) \<Rightarrow>
     buckets \<Rightarrow> json list \<Rightarrow> py_error + buckets" where
  "discover request loads out [] = Inr out"
| "discover request loads out (sensor # rest) =
     (case resolve_member request loads sensor of
        None \<Rightarrow> discover request loads out rest
      | Some sensor_obj \<Rightarrow>
         (case extract_data loads sensor_obj (KeyList sensor_keys) True of
            Inl e \<Rightarrow> discover request loads out rest
          | Inr (JObj parsed) \<Rightarrow>
             (case classify_append out parsed of
                Inl e \<Rightarrow> Inl e
              | Inr out' \<Rightarrow> discover request loads out' rest)
          | Inr _ \<Rightarrow> Inl AttributeError))"

text \<open>Lines 247 to 340: the sensor phase up to the normalized buckets.\<close>

definition sensors_path :: string where
  "sensors_path = ''/redfish/v1/Chassis/System.Embedded.1/Sensors?$expand=.($levels=1)''"

definition sensors_phase ::
  "(json \<Rightarrow> py_error + string) \<Rightarrow> (string \<Rightarrow> py_error + json) \<Rightarrow> py_error + buckets" where
  "sensors_phase request loads =
     (case request (JStr sensors_path) of
        Inl e \<Rightarrow> Inl e
      | Inr sensors_raw \<Rightarrow>
     (case select_sensors (loads sensors_raw) of
        Inl e \<Rightarrow> Inl e
      | Inr sensors \<Rightarrow>
     (case discover request loads \<lparr>fan = [], psu = [], temperature = [], sysBoard = []\<rparr> sensors of
        Inl e \<Rightarrow> Inl e
      | Inr out \<Rightarrow>
     (case format_psu (psu out) of
        Inl e \<Rightarrow> Inl e
      | Inr p \<Rightarrow>
     (case format_temp (temperature out) of
        Inl e \<Rightarrow> Inl e
      | Inr t \<Rightarrow>
     (case format_sysboard (sysBoard out) of
        Inl e \<Rightarrow> Inl e
      | Inr s \<Rightarrow> Inr (out\<lparr>psu := p, temperature := t, sysBoard := s\<rparr>)))))))"

text \<open>Lines 246 to 352: the phase inside its \<^verbatim>\<open>try\<close>.  On success the four buckets
  are written into the document \<^verbatim>\<open>buffer\<close>; on any exception the document is kept as
  it was.\<close>

definition sensors_discovery ::
  "(json \<Rightarrow> py_error + string) \<Rightarrow> (string \<Rightarrow> py_error + json) \<Rightarrow> dict \<Rightarrow> dict" where
  "sensors_discovery request loads buffer =
     (case sensors_phase request loads of
        Inl e \<Rightarrow> buffer
      | Inr out \<Rightarrow>
          AList.update ''sysBoard'' (JArr (map JObj (sysBoard out)))
           (AList.update ''temperature'' (JArr (map JObj (temperature out)))
             (AList.update ''psu'' (JArr (map JObj (psu out)))
               (AList.update ''fan'' (JArr (map JObj (fan out))) buffer))))"

section \<open>Notions of the specification\<close>

text \<open>A sequence of length \<open>n\<close> is too short for the index \<open>i\<close>.\<close>

definition too_short :: "nat \<Rightarrow> int \<Rightarrow> bool" where
  "too_short n i = (if 0 \<le> i then int n \<le> i else int n < - i)"

text \<open>Indexing the value \<open>target\<close> with the index text \<open>i\<close> fails: the text is no
  integer, the value is no sequence, or the sequence is too short.\<close>

definition index_fails :: "json \<Rightarrow> string \<Rightarrow> bool" where
  "index_fails target i =
     (case py_int i of
        Inl e \<Rightarrow> True
      | Inr n \<Rightarrow>
         (case target of
            JArr xs \<Rightarrow> too_short (length xs) n
          | JStr s \<Rightarrow> too_short (length s) n
          | _ \<Rightarrow> True))"

text \<open>A step of the traversal fails at the value \<open>cur\<close> with the path element \<open>p\<close>:
  the value is absent; or it is not indexable by the key (for \<^verbatim>\<open>K[i]\<close> it is no mapping,
  for a plain key it is a mapping without the key, a scalar, or a sequence that the key
  does not index); or the sequence is too short for the index.\<close>

definition step_fails :: "json \<Rightarrow> string \<Rightarrow> bool" where
  "step_fails cur p =
     (cur = JNull \<or>
      (if is_indexed p then
         (case cur of
            JObj d \<Rightarrow> index_fails (dict_get d (key_part p)) (idx_part p)
          | _ \<Rightarrow> True)
       else
         (case cur of
            JObj d \<Rightarrow> map_of d p = None
          | JArr xs \<Rightarrow> index_fails cur p
          | _ \<Rightarrow> True)))"

text \<open>The classification rules as the specification numbers them, on the fields
  \<^verbatim>\<open>name\<close>, \<^verbatim>\<open>context\<close> and \<^verbatim>\<open>type\<close> of a record.\<close>

datatype bucket = Fan | Psu | Temperature | SysBoard | Discard

definition name_satisfies :: "(string \<Rightarrow> bool) \<Rightarrow> dict \<Rightarrow> bool" where
  "name_satisfies P r = (case map_of r ''name'' of Some (JStr n) \<Rightarrow> P n | _ \<Rightarrow> False)"

definition field_is :: "dict \<Rightarrow> string \<Rightarrow> string \<Rightarrow> bool" where
  "field_is r k s = (map_of r k = Some (JStr s))"

definition rule1 :: "dict \<Rightarrow> bool" where
  "rule1 r = (name_satisfies (starts_with ''PS'') r \<and> field_is r ''context'' ''PowerSupply'')"

definition rule2 :: "dict \<Rightarrow> bool" where
  "rule2 r = field_is r ''type'' ''Temperature''"

definition rule3 :: "dict \<Rightarrow> bool" where
  "rule3 r = (name_satisfies (contains ''Fan'') r \<and> field_is r ''type'' ''Rotational'')"

definition rule4 :: "dict \<Rightarrow> bool" where
  "rule4 r = (name_satisfies (contains ''System Board'') r \<and> field_is r ''type'' ''Percent'')"

definition classify :: "dict \<Rightarrow> bucket" where
  "classify r =
     (if rule1 r then Psu
      else if rule2 r then Temperature
      else if rule3 r then Fan
      else if rule4 r then SysBoard
      else if field_is r ''context'' ''PowerSupply'' then Psu
      else if field_is r ''context'' ''Chassis'' then SysBoard
      else Discard)"

text \<open>Putting a record into one bucket, and the number of records the buckets hold.\<close>

fun place :: "bucket \<Rightarrow> dict \<Rightarrow> buckets \<Rightarrow> buckets" where
  "place Fan r out = out\<lparr>fan := fan out @ [r]\<rparr>"
| "place Psu r out = out\<lparr>psu := psu out @ [r]\<rparr>"
| "place Temperature r out = out\<lparr>temperature := temperature out @ [r]\<rparr>"
| "place SysBoard r out = out\<lparr>sysBoard := sysBoard out @ [r]\<rparr>"
| "place Discard r out = out"

definition held :: "buckets \<Rightarrow> nat" where
  "held out =
     length (fan out) + length (psu out) + length (temperature out) + length (sysBoard out)"






text \<open>A run of the sensor phase that the error handling claims are tried on: the
  collection lists a reference string whose fetch fails, a fan, and a temperature sensor
  without a \<^verbatim>\<open>Name\<close>.\<close>

definition example_members :: "json list" where
  "example_members =
     [JStr ''/Gone'',
      JObj [(''Name'', JStr ''Fan1''), (''ReadingType'', JStr ''Rotational'')],
      JObj [(''ReadingType'', JStr ''Temperature'')]]"

definition example_request :: "json \<Rightarrow> py_error + string" where
  "example_request path = (if path = JStr ''/Gone'' then Inl FetchError else Inr ''raw'')"

definition example_loads :: "string \<Rightarrow> py_error + json" where
  "example_loads s = Inr (JObj [(''Members'', JArr example_members)])"

section \<open>The Value Navigator is total\<close>

lemma parse_json_returns: "\<exists>v. parse_json d path = Inr v"
  by (induction path arbitrary: d) (auto split: sum.splits option.splits)

lemma parse_json_absent: "parse_json JNull path = Inr JNull"
  by (cases path) simp_all

lemma parse_json_append:
  "parse_json d pre = Inr c \<Longrightarrow> parse_json d (pre @ post) = parse_json c post"
proof (induction pre arbitrary: d)
  case Nil
  then show ?case by simp
next
  case (Cons p pre)
  then show ?case
    by (auto simp: parse_json_absent split: if_splits sum.splits option.splits)
qed

lemma seq_index_too_short: "too_short (length xs) n \<Longrightarrow> seq_index xs n = Inl IndexError"
  by (auto simp: too_short_def seq_index_def Let_def split: if_splits)

lemma getitem_fails:
  "py_int i = Inr n \<Longrightarrow> index_fails t i \<Longrightarrow> \<exists>e. py_getitem t n = Inl e"
  by (auto simp: index_fails_def py_getitem_def seq_index_too_short split: json.splits)

lemma step_fails_absent:
  assumes "step_fails cur p"
  shows "parse_json cur (p # post) = Inr JNull"
proof (cases "cur = JNull")
  case True
  then show ?thesis by simp
next
  case False
  show ?thesis
  proof (cases "is_indexed p")
    case True
    with assms False show ?thesis
      by (auto simp: step_fails_def segment_body_def py_get_def
          dest: getitem_fails split: json.splits sum.splits option.splits)
  next
    case ni: False
    with assms False show ?thesis
      by (auto simp: step_fails_def segment_body_def dict_get_def parse_json_absent
          dest: getitem_fails split: json.splits sum.splits option.splits)
  qed
qed

text \<open>
  Claim C4.  \<^verbatim>\<open>parse_json\<close> returns a value for every document and every path (no
  exception leaves it), and when the traversal has reached the value \<open>cur\<close> after the
  elements \<open>pre\<close> and the step with the next element \<open>p\<close> fails (\<open>cur\<close> is absent, is not
  indexable by the key of \<open>p\<close>, or is a sequence too short for the index of \<open>p\<close>), the
  result for the whole path is absent, whatever elements follow.
\<close>

theorem parse_json_total:
  "(\<exists>v. parse_json data path = Inr v) \<and>
   (parse_json data pre = Inr cur \<and> step_fails cur p \<longrightarrow>
      parse_json data (pre @ p # post) = Inr JNull)"
  using parse_json_returns parse_json_append step_fails_absent by simp

theorem parse_json_total_witness:
  "(\<exists>v. parse_json (JObj [(''Status'', JObj [(''Health'', JStr ''OK'')])])
          [''Status'', ''Health''] = Inr v) \<and>
   parse_json (JObj [(''Status'', JObj [(''Health'', JStr ''OK'')])]) [''Status''] =
     Inr (JObj [(''Health'', JStr ''OK'')]) \<and>
   step_fails (JObj [(''Health'', JStr ''OK'')]) ''State'' \<and>
   parse_json (JObj [(''Status'', JObj [(''Health'', JStr ''OK'')])])
     ([''Status''] @ ''State'' # [''x'']) = Inr JNull"
proof -
  have p: "parse_json (JObj [(''Status'', JObj [(''Health'', JStr ''OK'')])]) [''Status''] =
      Inr (JObj [(''Health'', JStr ''OK'')])"
    by code_simp
  have f: "step_fails (JObj [(''Health'', JStr ''OK'')]) ''State''"
    by (simp add: step_fails_def is_indexed_def)
  from parse_json_total [of "JObj [(''Status'', JObj [(''Health'', JStr ''OK'')])]"
      "[''Status'', ''Health'']" "[''Status'']" "JObj [(''Health'', JStr ''OK'')]"
      "''State''" "[''x'']"] p f
  show ?thesis by blast
qed

section \<open>Bracketed path elements\<close>

lemma indexed_segment:
  assumes "CHR ''['' \<notin> set K"
  shows "is_indexed (K @ CHR ''['' # i @ '']'')"
    and "key_part (K @ CHR ''['' # i @ '']'') = K"
    and "idx_part (K @ CHR ''['' # i @ '']'') = i"
proof -
  have b: "butlast (K @ CHR ''['' # i @ '']'') = K @ CHR ''['' # i"
    by (simp add: butlast_append)
  show "is_indexed (K @ CHR ''['' # i @ '']'')"
    by (simp add: is_indexed_def)
  from assms have n: "\<forall>c\<in>set K. c \<noteq> CHR ''[''" by auto
  from n have t: "takeWhile (\<lambda>c. c \<noteq> CHR ''['') (K @ CHR ''['' # i) = K"
    by simp
  from n have d: "dropWhile (\<lambda>c. c \<noteq> CHR ''['') (K @ CHR ''['' # i) = CHR ''['' # i"
    by simp
  show "key_part (K @ CHR ''['' # i @ '']'') = K"
    unfolding key_part_def b t ..
  show "idx_part (K @ CHR ''['' # i @ '']'') = i"
    unfolding idx_part_def b d by simp
qed

lemma indexed_step:
  assumes "CHR ''['' \<notin> set K" and "map_of d K = Some (JArr xs)"
  shows "segment_body (JObj d) (K @ CHR ''['' # i @ '']'') =
     (case py_int i of
        Inl e \<Rightarrow> Inl e
      | Inr n \<Rightarrow> (case seq_index xs n of Inl e \<Rightarrow> Inl e | Inr v \<Rightarrow> Inr (Some v)))"
  using assms
  by (simp add: segment_body_def indexed_segment py_get_def dict_get_def py_getitem_def
      split: sum.splits)

text \<open>
  Claim C5, as stated, fails: the index text \<^verbatim>\<open>-1\<close> is an integer for \<^verbatim>\<open>int()\<close>, and
  the element \<^verbatim>\<open>K[-1]\<close> resolves to the last entry of the sequence, not to absent.
\<close>

theorem negative_index_counterexample:
  "parse_json (JObj [(''K'', JArr [JInt 10, JInt 20])]) [''K[-1]''] = Inr (JInt 20)"
  by code_simp

text \<open>
  Claim C5, amended.  Let the key \<open>K\<close> (without \<^verbatim>\<open>[\<close>) of the current mapping hold a
  sequence \<open>xs\<close>.  The element \<^verbatim>\<open>K[i]\<close> resolves to absent when \<open>i\<close> is not an integer
  for \<^verbatim>\<open>int()\<close>, when the integer is at or beyond the length of \<open>xs\<close>, and when it is
  below minus the length; an integer from 0 up to the length selects that entry, and a
  negative integer down to minus the length selects the entry counted from the end.
\<close>

theorem bracket_index_resolution:
  assumes "CHR ''['' \<notin> set K" and "map_of d K = Some (JArr xs)"
  shows "(\<forall>e. py_int i = Inl e \<longrightarrow>
            parse_json (JObj d) ((K @ ''['' @ i @ '']'') # rest) = Inr JNull) \<and>
         (\<forall>n. py_int i = Inr n \<and> (int (length xs) \<le> n \<or> n < - int (length xs)) \<longrightarrow>
            parse_json (JObj d) ((K @ ''['' @ i @ '']'') # rest) = Inr JNull) \<and>
         (\<forall>n. py_int i = Inr n \<and> 0 \<le> n \<and> n < int (length xs) \<longrightarrow>
            parse_json (JObj d) ((K @ ''['' @ i @ '']'') # rest) =
              parse_json (xs ! nat n) rest) \<and>
         (\<forall>n. py_int i = Inr n \<and> - int (length xs) \<le> n \<and> n < 0 \<longrightarrow>
            parse_json (JObj d) ((K @ ''['' @ i @ '']'') # rest) =
              parse_json (xs ! nat (int (length xs) + n)) rest)"
  by (auto simp: indexed_step [OF assms] seq_index_def Let_def add.commute)

theorem bracket_index_resolution_witness:
  "CHR ''['' \<notin> set ''Members'' \<and>
   map_of [(''Members'', JArr [JStr ''a'', JStr ''b''])] ''Members'' =
     Some (JArr [JStr ''a'', JStr ''b'']) \<and>
   py_int ''2'' = Inr 2 \<and> py_int ''-1'' = Inr (- 1) \<and> py_int ''x'' = Inl ValueError \<and>
   parse_json (JObj [(''Members'', JArr [JStr ''a'', JStr ''b''])])
     [''Members'' @ ''['' @ ''2'' @ '']''] = Inr JNull \<and>
   parse_json (JObj [(''Members'', JArr [JStr ''a'', JStr ''b''])])
     [''Members'' @ ''['' @ ''x'' @ '']''] = Inr JNull \<and>
   parse_json (JObj [(''Members'', JArr [JStr ''a'', JStr ''b''])])
     [''Members'' @ ''['' @ ''-1'' @ '']''] = Inr (JStr ''b'')"
proof -
  have k: "CHR ''['' \<notin> set ''Members''" by simp
  have m: "map_of [(''Members'', JArr [JStr ''a'', JStr ''b''])] ''Members'' =
      Some (JArr [JStr ''a'', JStr ''b''])"
    by simp
  have i2: "py_int ''2'' = Inr 2" by code_simp
  have i1: "py_int ''-1'' = Inr (- 1)" by code_simp
  have ix: "py_int ''x'' = Inl ValueError" by code_simp
  note r = bracket_index_resolution [OF k m, where rest = "[]"]
  from r [of "''2''"] i2
  have a: "parse_json (JObj [(''Members'', JArr [JStr ''a'', JStr ''b''])])
      [''Members'' @ ''['' @ ''2'' @ '']''] = Inr JNull"
    by simp
  from r [of "''x''"] ix
  have b: "parse_json (JObj [(''Members'', JArr [JStr ''a'', JStr ''b''])])
      [''Members'' @ ''['' @ ''x'' @ '']''] = Inr JNull"
    by simp
  from r [of "''-1''"] i1
  have c: "parse_json (JObj [(''Members'', JArr [JStr ''a'', JStr ''b''])])
      [''Members'' @ ''['' @ ''-1'' @ '']''] = Inr (JStr ''b'')"
    by simp
  from k m i2 i1 ix a b c show ?thesis by blast
qed

section \<open>The Sensor Classifier\<close>

lemma guarded_startswith:
  "pre \<noteq> [] \<Longrightarrow>
   py_and (is_str (dict_get_default r ''name'' (JStr [])))
     (and_then (py_startswith (dict_get_default r ''name'' (JStr [])) pre) b) =
   Inr (name_satisfies (starts_with pre) r \<and> b)"
  by (simp add: py_and_def and_then_def py_startswith_def is_str_def dict_get_default_def
      name_satisfies_def starts_with_def split: option.splits json.splits)

lemma guarded_in:
  "sub \<noteq> [] \<Longrightarrow>
   py_and (is_str (dict_get_default r ''name'' (JStr [])))
     (and_then (py_in sub (dict_get_default r ''name'' (JStr []))) b) =
   Inr (name_satisfies (contains sub) r \<and> b)"
  by (simp add: py_and_def and_then_def py_in_def is_str_def dict_get_default_def
      name_satisfies_def split: option.splits json.splits)

lemma get_is: "dict_get r k = JStr s \<longleftrightarrow> field_is r k s"
  by (simp add: dict_get_def field_is_def split: option.splits)

lemma get_default_is:
  "s \<noteq> [] \<Longrightarrow> dict_get_default r k (JStr []) = JStr s \<longleftrightarrow> field_is r k s"
  by (auto simp: dict_get_default_def field_is_def split: option.splits)

lemma classify_append_place:
  "classify_append out r = Inr (place (classify r) r out)"
  by (simp add: classify_append_def classify_def rule1_def rule2_def rule3_def rule4_def
      Let_def py_if_def guarded_startswith guarded_in get_is get_default_is)

lemma held_place: "held (place b r out) = (if b = Discard then held out else Suc (held out))"
  by (cases b) (simp_all add: held_def)

text \<open>The tests \<open>starts_with\<close> and \<open>contains\<close> are the prefix and the substring
  relation.\<close>

lemma starts_with_iff: "starts_with sub s \<longleftrightarrow> (\<exists>post. s = sub @ post)"
  unfolding starts_with_def
  by (metis append_take_drop_id append_eq_conv_conj)

lemma contains_iff: "contains sub s \<longleftrightarrow> (\<exists>pre post. s = pre @ sub @ post)"
proof (induction s)
  case Nil
  then show ?case by auto
next
  case (Cons x xs)
  show ?case
  proof
    assume "contains sub (x # xs)"
    then consider "starts_with sub (x # xs)" | "contains sub xs" by auto
    then show "\<exists>pre post. x # xs = pre @ sub @ post"
    proof cases
      case 1
      then obtain post where "x # xs = sub @ post" by (auto simp: starts_with_iff)
      then have "x # xs = [] @ sub @ post" by simp
      then show ?thesis by blast
    next
      case 2
      with Cons obtain pre post where "xs = pre @ sub @ post" by auto
      then have "x # xs = (x # pre) @ sub @ post" by simp
      then show ?thesis by blast
    qed
  next
    assume "\<exists>pre post. x # xs = pre @ sub @ post"
    then obtain pre post where e: "x # xs = pre @ sub @ post" by blast
    show "contains sub (x # xs)"
    proof (cases pre)
      case Nil
      with e have "starts_with sub (x # xs)" by (auto simp: starts_with_iff)
      then show ?thesis by simp
    next
      case (Cons y ys)
      with e have "xs = ys @ sub @ post" by simp
      with Cons.IH have "contains sub xs" by blast
      then show ?thesis by simp
    qed
  qed
qed

text \<open>
  Claim C1.  The classification step of \<^verbatim>\<open>main\<close> raises nothing and is a function of the
  extracted record alone: it puts the record into the one bucket that the rules of the
  specification name, taken in their order with the first match winning (1: name starts
  with \<^verbatim>\<open>PS\<close> and context is \<^verbatim>\<open>PowerSupply\<close>, psu; 2: type is \<^verbatim>\<open>Temperature\<close>, temperature;
  3: name contains \<^verbatim>\<open>Fan\<close> and type is \<^verbatim>\<open>Rotational\<close>, fan; 4: name contains
  \<^verbatim>\<open>System Board\<close> and type is \<^verbatim>\<open>Percent\<close>, sysBoard; 5: context \<^verbatim>\<open>PowerSupply\<close>, psu, context
  \<^verbatim>\<open>Chassis\<close>, sysBoard; otherwise the record is dropped).  A record that satisfies rule 1
  and the psu fallback of rule 5 is appended to psu once.  The buckets together hold one
  record more after the step, or as many as before when the record is dropped: no
  record goes into two buckets.
\<close>

theorem classify_first_match:
  "classify_append out r = Inr (place (classify r) r out) \<and>
   (rule1 r \<and> field_is r ''context'' ''PowerSupply'' \<longrightarrow>
      classify_append out r = Inr (out\<lparr>psu := psu out @ [r]\<rparr>)) \<and>
   (\<forall>out'. classify_append out r = Inr out' \<longrightarrow>
      held out' = (if classify r = Discard then held out else Suc (held out)))"
  by (simp add: classify_append_place held_place classify_def)

theorem classify_first_match_witness:
  "rule1 [(''name'', JStr ''PS1 Voltage''), (''context'', JStr ''PowerSupply''),
          (''type'', JStr ''Temperature'')] \<and>
   field_is [(''name'', JStr ''PS1 Voltage''), (''context'', JStr ''PowerSupply''),
          (''type'', JStr ''Temperature'')] ''context'' ''PowerSupply'' \<and>
   classify_append \<lparr>fan = [], psu = [], temperature = [], sysBoard = []\<rparr>
     [(''name'', JStr ''PS1 Voltage''), (''context'', JStr ''PowerSupply''),
      (''type'', JStr ''Temperature'')] =
   Inr \<lparr>fan = [],
        psu = [[(''name'', JStr ''PS1 Voltage''), (''context'', JStr ''PowerSupply''),
                (''type'', JStr ''Temperature'')]],
        temperature = [], sysBoard = []\<rparr>"
proof -
  have r: "rule1 [(''name'', JStr ''PS1 Voltage''), (''context'', JStr ''PowerSupply''),
          (''type'', JStr ''Temperature'')]"
    by (simp add: rule1_def name_satisfies_def field_is_def starts_with_def)
  have f: "field_is [(''name'', JStr ''PS1 Voltage''), (''context'', JStr ''PowerSupply''),
          (''type'', JStr ''Temperature'')] ''context'' ''PowerSupply''"
    by (simp add: field_is_def)
  from classify_first_match [of "\<lparr>fan = [], psu = [], temperature = [], sysBoard = []\<rparr>"
      "[(''name'', JStr ''PS1 Voltage''), (''context'', JStr ''PowerSupply''),
        (''type'', JStr ''Temperature'')]"] r f
  have "classify_append \<lparr>fan = [], psu = [], temperature = [], sysBoard = []\<rparr>
     [(''name'', JStr ''PS1 Voltage''), (''context'', JStr ''PowerSupply''),
      (''type'', JStr ''Temperature'')] =
    Inr (\<lparr>fan = [], psu = [], temperature = [], sysBoard = []\<rparr>
      \<lparr>psu := psu \<lparr>fan = [], psu = [], temperature = [], sysBoard = []\<rparr> @
         [[(''name'', JStr ''PS1 Voltage''), (''context'', JStr ''PowerSupply''),
           (''type'', JStr ''Temperature'')]]\<rparr>)"
    by blast
  with r f show ?thesis by simp
qed

text \<open>
  Claim C10.  For an extracted record whose \<^verbatim>\<open>name\<close> is present and not a string, the
  classification step raises nothing; the three tests on the name are passed over, and
  the record goes to temperature when its type is \<^verbatim>\<open>Temperature\<close>, else to psu when its
  context is \<^verbatim>\<open>PowerSupply\<close>, else to sysBoard when its context is \<^verbatim>\<open>Chassis\<close>, and is
  dropped otherwise.
\<close>

theorem nonstring_name_classification:
  assumes "map_of r ''name'' = Some v" and "\<not> is_str v"
  shows "classify_append out r =
     Inr (if dict_get r ''type'' = JStr ''Temperature''
            then out\<lparr>temperature := temperature out @ [r]\<rparr>
          else if dict_get r ''context'' = JStr ''PowerSupply''
            then out\<lparr>psu := psu out @ [r]\<rparr>
          else if dict_get r ''context'' = JStr ''Chassis''
            then out\<lparr>sysBoard := sysBoard out @ [r]\<rparr>
          else out)"
  using assms
  by (auto simp: classify_append_def Let_def py_if_def py_and_def
      dict_get_def dict_get_default_def split: option.splits)

theorem nonstring_name_classification_witness:
  "map_of [(''name'', JNull), (''context'', JStr ''PowerSupply''), (''type'', JStr ''Voltage'')]
     ''name'' = Some JNull \<and>
   \<not> is_str JNull \<and>
   classify_append \<lparr>fan = [], psu = [], temperature = [], sysBoard = []\<rparr>
     [(''name'', JNull), (''context'', JStr ''PowerSupply''), (''type'', JStr ''Voltage'')] =
   Inr \<lparr>fan = [],
        psu = [[(''name'', JNull), (''context'', JStr ''PowerSupply''),
                (''type'', JStr ''Voltage'')]],
        temperature = [], sysBoard = []\<rparr>"
proof -
  have m: "map_of [(''name'', JNull), (''context'', JStr ''PowerSupply''),
      (''type'', JStr ''Voltage'')] ''name'' = Some JNull"
    by simp
  have n: "\<not> is_str JNull" by (simp add: is_str_def)
  from nonstring_name_classification [OF m n,
      of "\<lparr>fan = [], psu = [], temperature = [], sysBoard = []\<rparr>"] m n
  show ?thesis by (simp add: dict_get_def)
qed

section \<open>The Key Spec Resolver and \<^verbatim>\<open>@odata.id\<close>\<close>

text \<open>
  Claim C6 against the code.  Only the list form of the key spec looks the path
  \<^verbatim>\<open>@odata.id\<close> up as a field of the document.  A single key record and a bare path
  string split it at the dot and traverse the keys \<^verbatim>\<open>@odata\<close> and \<^verbatim>\<open>id\<close>: on a document
  with the field \<^verbatim>\<open>@odata.id\<close> alone they give absent, and on a document that also has
  \<^verbatim>\<open>{"@odata": {"id": ...}}\<close> they give the nested value.
\<close>

theorem odata_id_only_direct_in_list_form:
  "extract_data loads (JObj [(''@odata.id'', JStr ''/redfish/v1/x'')])
     (KeyList [(''ref'', ''@odata.id'')]) True = Inr (JObj [(''ref'', JStr ''/redfish/v1/x'')]) \<and>
   extract_data loads (JObj [(''@odata.id'', JStr ''/redfish/v1/x'')])
     (KeyDict (''ref'', ''@odata.id'')) True = Inr (JObj [(''ref'', JNull)]) \<and>
   extract_data loads (JObj [(''@odata.id'', JStr ''/redfish/v1/x'')])
     (KeyStr ''@odata.id'') True = Inr JNull \<and>
   extract_data loads
     (JObj [(''@odata'', JObj [(''id'', JStr ''nested'')]), (''@odata.id'', JStr ''direct'')])
     (KeyDict (''ref'', ''@odata.id'')) True = Inr (JObj [(''ref'', JStr ''nested'')]) \<and>
   extract_data loads
     (JObj [(''@odata'', JObj [(''id'', JStr ''nested'')]), (''@odata.id'', JStr ''direct'')])
     (KeyStr ''@odata.id'') True = Inr (JStr ''nested'')"
  by (simp add: extract_data_def py_get_def dict_get_def segment_body_def is_indexed_def)

text \<open>
  In the list form a key record with the path \<^verbatim>\<open>@odata.id\<close> gets the field of that name
  of the document, looked up directly.
\<close>

theorem odata_id_direct_in_list_form:
  "extract_data loads (JObj d) (KeyList [(name, ''@odata.id'')]) True =
     Inr (JObj [(name, dict_get d ''@odata.id'')])"
  by (simp add: extract_data_def py_get_def)

section \<open>The name trims\<close>

lemma split_on_nonempty: "split_on c s \<noteq> []"
  by (induction s) auto

lemma split_on_no_sep: "c \<notin> set w \<Longrightarrow> split_on c w = [w]"
  by (induction w) auto

lemma split_on_token: "c \<notin> set w \<Longrightarrow> split_on c (w @ c # rest) = w # split_on c rest"
  by (induction w) auto

lemma split_join:
  "ts \<noteq> [] \<Longrightarrow> \<forall>t\<in>set ts. c \<notin> set t \<Longrightarrow> split_on c (join_with c ts) = ts"
  by (induction c ts rule: join_with.induct) (auto simp: split_on_no_sep split_on_token)

text \<open>Every string is the join of its pieces, and no piece holds the separator: a
  statement about all joins of separator-free pieces is a statement about all strings.\<close>

lemma split_on_tokens: "\<forall>t\<in>set (split_on c s). c \<notin> set t"
proof (induction s)
  case Nil
  then show ?case by simp
next
  case (Cons x xs)
  then show ?case
    using split_on_nonempty [of c xs]
    by (cases "split_on c xs") auto
qed

lemma join_split: "join_with c (split_on c s) = s"
proof (induction s)
  case Nil
  then show ?case by simp
next
  case (Cons x xs)
  obtain w ws where e: "split_on c xs = w # ws"
    using split_on_nonempty [of c xs] by (auto simp: neq_Nil_conv)
  with Cons show ?case by (cases ws) auto
qed




text \<open>
  Claim C7 against the code.  The record named \<^verbatim>\<open>System Board \<close> (one space at the end)
  of type \<^verbatim>\<open>Percent\<close> is put into the sysBoard bucket by rule 4, and \<^verbatim>\<open>format_sysboard\<close>
  then sets its name to the empty string: the split at the spaces leaves an empty last
  piece, the list of kept pieces holds that one empty piece and so passes the test
  \<^verbatim>\<open>if buffer\<close>, and its join is empty.
\<close>

theorem sysboard_trim_empties_name:
  "classify_append \<lparr>fan = [], psu = [], temperature = [], sysBoard = []\<rparr>
     [(''name'', JStr ''System Board ''), (''type'', JStr ''Percent'')] =
   Inr \<lparr>fan = [], psu = [], temperature = [],
        sysBoard = [[(''name'', JStr ''System Board ''), (''type'', JStr ''Percent'')]]\<rparr> \<and>
   format_sysboard [[(''name'', JStr ''System Board ''), (''type'', JStr ''Percent'')]] =
   Inr [[(''name'', JStr []), (''type'', JStr ''Percent'')]]"
  by code_simp

lemma join_with_empty: "join_with c ws = [] \<Longrightarrow> ws = [] \<or> ws = [[]]"
  by (induction c ws rule: join_with.induct) auto

lemma format_sysboard_obj_tokens:
  assumes "ts \<noteq> []" and "\<forall>t\<in>set ts. CHR '' '' \<notin> set t"
    and "map_of obj ''name'' = Some (JStr (join_with CHR '' '' ts))"
  shows "format_sysboard_obj obj =
     Inr (if filter (\<lambda>w. w \<notin> set remove_words) ts = [] then obj
          else AList.update ''name''
                 (JStr (join_with CHR '' '' (filter (\<lambda>w. w \<notin> set remove_words) ts))) obj)"
  using assms
  by (simp add: format_sysboard_obj_def dict_get_default_def py_split_def split_join Let_def)

text \<open>
  Where the name of a record is made of non-empty tokens joined by single spaces (no
  space at either end, no two spaces in a row), one round of \<^verbatim>\<open>format_sysboard\<close> removes
  the tokens \<^verbatim>\<open>System\<close>, \<^verbatim>\<open>Board\<close> and \<^verbatim>\<open>Usage\<close> and joins the others; when none is left
  the record stays as it is; and the name of the result is not empty.
\<close>

theorem format_sysboard_keeps_names_nonempty:
  assumes "ts \<noteq> []" and "\<forall>t\<in>set ts. t \<noteq> [] \<and> CHR '' '' \<notin> set t"
    and "map_of obj ''name'' = Some (JStr (join_with CHR '' '' ts))"
  shows "format_sysboard_obj obj =
     Inr (if filter (\<lambda>w. w \<notin> set remove_words) ts = [] then obj
          else AList.update ''name''
                 (JStr (join_with CHR '' '' (filter (\<lambda>w. w \<notin> set remove_words) ts))) obj) \<and>
     (\<forall>obj'. format_sysboard_obj obj = Inr obj' \<longrightarrow> map_of obj' ''name'' \<noteq> Some (JStr []))"
proof -
  let ?kept = "filter (\<lambda>w. w \<notin> set remove_words) ts"
  from assms have e: "format_sysboard_obj obj =
     Inr (if ?kept = [] then obj
          else AList.update ''name'' (JStr (join_with CHR '' '' ?kept)) obj)"
    by (intro format_sysboard_obj_tokens) auto
  from assms(1,2) have n: "join_with CHR '' '' ts \<noteq> []"
    using join_with_empty [of "CHR '' ''" ts] by auto
  have k: "?kept \<noteq> [] \<Longrightarrow> join_with CHR '' '' ?kept \<noteq> []"
  proof
    assume a: "?kept \<noteq> []" and "join_with CHR '' '' ?kept = []"
    then have "?kept = [[]]" using join_with_empty by blast
    then have "[] \<in> set ?kept" by simp
    with assms(2) show False by auto
  qed
  from e n k assms(3) show ?thesis
    by (auto simp: update_conv')
qed

theorem format_sysboard_keeps_names_nonempty_witness:
  "[''System'', ''Board'', ''Usage''] \<noteq> [] \<and>
   list_all (\<lambda>t. t \<noteq> [] \<and> CHR '' '' \<notin> set t) [''System'', ''Board'', ''Usage''] \<and>
   map_of [(''name'', JStr ''System Board Usage'')] ''name'' =
     Some (JStr (join_with CHR '' '' [''System'', ''Board'', ''Usage''])) \<and>
   format_sysboard_obj [(''name'', JStr ''System Board Usage'')] =
     Inr [(''name'', JStr ''System Board Usage'')]"
proof -
  have a: "[''System'', ''Board'', ''Usage''] \<noteq> ([] :: string list)" by simp
  have b: "list_all (\<lambda>t. t \<noteq> [] \<and> CHR '' '' \<notin> set t) [''System'', ''Board'', ''Usage'']"
    by simp
  have c: "map_of [(''name'', JStr ''System Board Usage'')] ''name'' =
     Some (JStr (join_with CHR '' '' [''System'', ''Board'', ''Usage'']))"
    by simp
  from b have b': "\<forall>t\<in>set [''System'', ''Board'', ''Usage'']. t \<noteq> [] \<and> CHR '' '' \<notin> set t"
    unfolding list_all_iff .
  from format_sysboard_keeps_names_nonempty [OF a b' c]
  have "format_sysboard_obj [(''name'', JStr ''System Board Usage'')] =
     Inr [(''name'', JStr ''System Board Usage'')]"
    by (simp add: remove_words_def)
  with a b c show ?thesis by blast
qed

section \<open>The member list\<close>

text \<open>
  Claim C9 against the code.  An object whose \<^verbatim>\<open>Members\<close> field is the empty list does
  not have that list taken: \<^verbatim>\<open>or\<close> passes over the empty list, so the choice falls to
  \<^verbatim>\<open>members\<close> when that field holds a non-empty list, and otherwise to the object itself,
  which is no list and raises \<^verbatim>\<open>RuntimeError\<close>; the phase then leaves the output document
  without the four buckets.  A non-empty \<^verbatim>\<open>Members\<close> list is taken.
\<close>

theorem empty_members_list_rejected:
  "select_sensors (Inr (JObj [(''Members'', JArr [])])) = Inl RuntimeError \<and>
   select_sensors (Inr (JObj [(''Members'', JArr []), (''members'', JArr [JStr ''/s/1''])])) =
     Inr [JStr ''/s/1''] \<and>
   select_sensors (Inr (JObj [(''Members'', JArr [JStr ''/s/1''])])) = Inr [JStr ''/s/1''] \<and>
   sensors_discovery (\<lambda>p. Inr ''raw'') (\<lambda>s. Inr (JObj [(''Members'', JArr [])]))
     [(''model'', JStr ''R740'')] = [(''model'', JStr ''R740'')]"
  by (simp add: select_sensors_def dict_get_def py_or_def truthy_def sensors_discovery_def
      sensors_phase_def)

section \<open>Failures in the pipeline\<close>

lemma extract_list_returns:
  "\<forall>k\<in>set ks. snd k \<noteq> ''@odata.id'' \<Longrightarrow> \<exists>b. extract_list data ks buf = Inr b"
proof (induction ks arbitrary: buf)
  case Nil
  then show ?case by simp
next
  case (Cons k ks)
  obtain name path where k: "k = (name, path)" by (cases k)
  obtain v where v: "parse_json data (split_on CHR ''.'' path) = Inr v"
    using parse_json_returns by blast
  from Cons.prems k have "path \<noteq> ''@odata.id''" by simp
  with Cons k v show ?case by simp
qed

lemma extract_sensor_record:
  "\<exists>parsed. extract_data loads sensor_obj (KeyList sensor_keys) True = Inr (JObj parsed)"
proof -
  have "\<forall>k\<in>set sensor_keys. snd k \<noteq> ''@odata.id''"
    by (simp add: sensor_keys_def)
  from extract_list_returns [OF this] obtain b where
    "extract_list sensor_obj sensor_keys [] = Inr b" by blast
  then show ?thesis
    by (cases sensor_obj) (simp_all add: extract_data_def)
qed

text \<open>
  The loop over the members raises nothing, whatever the collaborators do: a member
  whose fetch or parse fails is left out, the extraction with the six sensor keys always
  gives a record, and the classification of a record raises nothing.
\<close>

theorem member_loop_never_raises:
  "\<exists>out'. discover request loads out sensors = Inr out'"
proof (induction sensors arbitrary: out)
  case Nil
  then show ?case by simp
next
  case (Cons sensor rest)
  show ?case
  proof (cases "resolve_member request loads sensor")
    case None
    with Cons show ?thesis by simp
  next
    case (Some sensor_obj)
    from extract_sensor_record obtain parsed where
      "extract_data loads sensor_obj (KeyList sensor_keys) True = Inr (JObj parsed)" by blast
    with Some Cons show ?thesis
      by (simp add: classify_append_place)
  qed
qed

lemma example_select:
  "select_sensors (example_loads s) = Inr example_members"
  by (simp add: select_sensors_def example_loads_def example_members_def dict_get_def
      py_or_def truthy_def)

lemma example_discover:
  "discover example_request example_loads
     \<lparr>fan = [], psu = [], temperature = [], sysBoard = []\<rparr> example_members =
   Inr \<lparr>fan = [[(''id'', JNull), (''name'', JStr ''Fan1''), (''context'', JNull),
                 (''reading'', JNull), (''type'', JStr ''Rotational''), (''health'', JNull)]],
        psu = [],
        temperature = [[(''id'', JNull), (''name'', JNull), (''context'', JNull),
                 (''reading'', JNull), (''type'', JStr ''Temperature''), (''health'', JNull)]],
        sysBoard = []\<rparr>"
  by code_simp

lemma example_format_temp:
  "format_temp_obj [(''id'', JNull), (''name'', JNull), (''context'', JNull),
                 (''reading'', JNull), (''type'', JStr ''Temperature''), (''health'', JNull)] =
   Inl AttributeError"
  by (simp add: format_temp_obj_def dict_get_default_def py_split_def)

text \<open>
  Claim C3 against the code.  In the example run the member whose fetch fails is left
  out and the loop classifies the two other members: the fan into the fan bucket, the
  temperature sensor without a name into the temperature bucket.  \<^verbatim>\<open>format_temp\<close> then
  calls \<^verbatim>\<open>split\<close> on the name \<^verbatim>\<open>None\<close>; the \<^verbatim>\<open>AttributeError\<close> is caught only by the handler
  around the whole sensor phase, and the output document is left as it was before the
  phase: the fan is in no bucket of the output.
\<close>

theorem normalizer_failure_drops_all_buckets:
  "discover example_request example_loads
     \<lparr>fan = [], psu = [], temperature = [], sysBoard = []\<rparr> example_members =
   Inr \<lparr>fan = [[(''id'', JNull), (''name'', JStr ''Fan1''), (''context'', JNull),
                 (''reading'', JNull), (''type'', JStr ''Rotational''), (''health'', JNull)]],
        psu = [],
        temperature = [[(''id'', JNull), (''name'', JNull), (''context'', JNull),
                 (''reading'', JNull), (''type'', JStr ''Temperature''), (''health'', JNull)]],
        sysBoard = []\<rparr> \<and>
   sensors_phase example_request example_loads = Inl AttributeError \<and>
   sensors_discovery example_request example_loads [(''model'', JStr ''R740'')] =
     [(''model'', JStr ''R740'')]"
proof -
  have r: "example_request (JStr sensors_path) = Inr ''raw''"
    by (simp add: example_request_def sensors_path_def)
  have p: "sensors_phase example_request example_loads = Inl AttributeError"
    by (simp add: sensors_phase_def r example_select example_discover format_psu_def
        example_format_temp)
  then show ?thesis
    by (simp add: example_discover sensors_discovery_def)
qed

section \<open>The PSU merge\<close>


















end
